theory Spec2Isabelle
  imports Complex_Main "HOL-Library.FSet" "HOL-Library.AList"
begin

unbundle bit_operations_syntax

section \<open>Python values and exceptions\<close>

text \<open>
  The repository passes JSON-like dictionaries around (log entries, metadata, filter
  specs).  A dictionary is an association list in insertion order with string keys, as
  Python's \<^verbatim>\<open>dict\<close> keeps it.  Floats are only stored and compared in the code that is
  modelled here, never computed with, so they are reals.
\<close>

datatype pyval =
    PNone
  | PBool bool
  | PInt int
  | PFloat real
  | PStr string
  | PList "pyval list"
  | PTuple "pyval list"
  | PDict "(string \<times> pyval) list"

text \<open>
  The pieces of an f-string: literal text, \<^verbatim>\<open>{v}\<close> and \<^verbatim>\<open>{v!r}\<close>.  Python's \<^verbatim>\<open>str\<close> and
  \<^verbatim>\<open>repr\<close> of an arbitrary value are not spelled out; a message records which value was
  interpolated and how.
\<close>

datatype fpart = Lit string | Fmt pyval | Repr pyval

datatype error =
    ValueError "fpart list"
  | AttributeError
  | IndexError
  | TypeError
  | NotImplementedError

text \<open>Truthiness, \<^verbatim>\<open>d.get(k, default)\<close> and \<^verbatim>\<open>d[k] = v\<close>.\<close>

fun truthy :: "pyval \<Rightarrow> bool" where
  "truthy PNone = False"
| "truthy (PBool b) = b"
| "truthy (PInt i) = (i \<noteq> 0)"
| "truthy (PFloat r) = (r \<noteq> 0)"
| "truthy (PStr s) = (s \<noteq> [])"
| "truthy (PList xs) = (xs \<noteq> [])"
| "truthy (PTuple xs) = (xs \<noteq> [])"
| "truthy (PDict kvs) = (kvs \<noteq> [])"

definition dict_get :: "(string \<times> pyval) list \<Rightarrow> string \<Rightarrow> pyval \<Rightarrow> pyval" where
  "dict_get d k dflt = (case map_of d k of None \<Rightarrow> dflt | Some v \<Rightarrow> v)"

definition dict_set :: "(string \<times> pyval) list \<Rightarrow> string \<Rightarrow> pyval \<Rightarrow> (string \<times> pyval) list" where
  "dict_set d k v = AList.update k v d"

section \<open>Text: characters, \<^verbatim>\<open>str\<close> methods and the regular expressions of \<^verbatim>\<open>re\<close>\<close>

text \<open>
  Text is ASCII: a \<^typ>\<open>char\<close> is one byte, and the character classes below are Python's
  on the code points below 128.  \<^verbatim>\<open>\s\<close> and \<^verbatim>\<open>str.strip\<close> share one whitespace set (tab
  to carriage return, the four separators 28 to 31, and the space); \<^verbatim>\<open>\w\<close> is a letter, a
  digit or the underscore.
\<close>

definition py_ord :: "char \<Rightarrow> int" where
  "py_ord c = of_char c"

definition is_digit :: "char \<Rightarrow> bool" where
  "is_digit c = (48 \<le> py_ord c \<and> py_ord c \<le> 57)"

definition is_upper :: "char \<Rightarrow> bool" where
  "is_upper c = (65 \<le> py_ord c \<and> py_ord c \<le> 90)"

definition is_lower :: "char \<Rightarrow> bool" where
  "is_lower c = (97 \<le> py_ord c \<and> py_ord c \<le> 122)"

definition is_space :: "char \<Rightarrow> bool" where
  "is_space c = ((9 \<le> py_ord c \<and> py_ord c \<le> 13) \<or> (28 \<le> py_ord c \<and> py_ord c \<le> 32))"

definition is_word :: "char \<Rightarrow> bool" where
  "is_word c = (is_digit c \<or> is_upper c \<or> is_lower c \<or> c = CHR ''_'')"

definition lower_char :: "char \<Rightarrow> char" where
  "lower_char c = (if is_upper c then char_of (py_ord c + 32) else c)"

definition py_lower :: "string \<Rightarrow> string" where
  "py_lower s = map lower_char s"

definition py_strip :: "string \<Rightarrow> string" where
  "py_strip s = rev (dropWhile is_space (rev (dropWhile is_space s)))"

subsection \<open>Patterns\<close>

text \<open>
  The fragment of Python's pattern language that the repository uses: character classes
  (\<open>Cls\<close>, negated \<open>NCls\<close>), the dot, concatenation, alternation, greedy counted
  repetition \<^verbatim>\<open>{lo,hi}\<close> (\<open>hi = None\<close> for no upper bound), \<^verbatim>\<open>\b\<close>, positive lookahead,
  capture groups and the anchors \<^verbatim>\<open>^\<close> and \<^verbatim>\<open>$\<close>.
\<close>

datatype citem = CChar char | CRange char char | CDigit | CSpace

datatype re =
    Cls "citem list"
  | NCls "citem list"
  | AnyCh
  | Eps
  | Cat re re
  | Alt re re
  | Rep nat "nat option" re
  | WordB
  | Look re
  | Grp nat re
  | Bol
  | Eol

fun item_match :: "citem \<Rightarrow> int \<Rightarrow> bool" where
  "item_match (CChar d) n = (n = py_ord d)"
| "item_match (CRange lo hi) n = (py_ord lo \<le> n \<and> n \<le> py_ord hi)"
| "item_match CDigit n = (48 \<le> n \<and> n \<le> 57)"
| "item_match CSpace n = ((9 \<le> n \<and> n \<le> 13) \<or> (28 \<le> n \<and> n \<le> 32))"

definition lower_code :: "int \<Rightarrow> int" where
  "lower_code n = (if 65 \<le> n \<and> n \<le> 90 then n + 32 else n)"

definition upper_code :: "int \<Rightarrow> int" where
  "upper_code n = (if 97 \<le> n \<and> n \<le> 122 then n - 32 else n)"

text \<open>
  A character is in a class if one of the items holds it; under \<^verbatim>\<open>re.IGNORECASE\<close> (\<open>ci\<close>)
  also if its lower-case or upper-case form is held.
\<close>

definition class_match :: "bool \<Rightarrow> citem list \<Rightarrow> char \<Rightarrow> bool" where
  "class_match ci its c =
     (list_ex (\<lambda>it. item_match it (py_ord c)) its
      \<or> (ci \<and> list_ex (\<lambda>it. item_match it (lower_code (py_ord c))
                            \<or> item_match it (upper_code (py_ord c))) its))"

subsection \<open>Backtracking matcher\<close>

text \<open>
  A position in the subject is the text already passed (reversed, so that its head is the
  character before the position) and the text ahead; with it travel the groups captured so
  far.  \<open>matches r ci st\<close> lists every position at which \<open>r\<close> can end when started at \<open>st\<close>,
  in the order in which Python's backtracking matcher tries them: the head of the list is
  the match Python reports.
\<close>

datatype mstate = MState (passed: string) (ahead: string) (captured: "(nat \<times> string) list")

definition at_boundary :: "mstate \<Rightarrow> bool" where
  "at_boundary st =
     ((case passed st of [] \<Rightarrow> False | c # _ \<Rightarrow> is_word c)
      \<noteq> (case ahead st of [] \<Rightarrow> False | c # _ \<Rightarrow> is_word c))"

text \<open>
  \<^verbatim>\<open>r{lo,hi}\<close> runs \<open>r\<close> exactly \<open>lo\<close> times and then greedily up to \<open>hi - lo\<close> more times:
  one more round is tried before stopping.  Every repeated pattern in this theory consumes
  a character per round, so an unbounded repetition makes at most as many rounds as there
  are characters ahead.
\<close>

primrec rep_exact :: "(mstate \<Rightarrow> mstate list) \<Rightarrow> nat \<Rightarrow> mstate \<Rightarrow> mstate list" where
  "rep_exact f 0 st = [st]"
| "rep_exact f (Suc n) st = concat (map (rep_exact f n) (f st))"

primrec rep_greedy :: "(mstate \<Rightarrow> mstate list) \<Rightarrow> nat \<Rightarrow> mstate \<Rightarrow> mstate list" where
  "rep_greedy f 0 st = [st]"
| "rep_greedy f (Suc n) st = concat (map (rep_greedy f n) (f st)) @ [st]"

definition advance :: "mstate \<Rightarrow> char \<Rightarrow> string \<Rightarrow> mstate" where
  "advance st c cs = MState (c # passed st) cs (captured st)"

primrec matches :: "re \<Rightarrow> bool \<Rightarrow> mstate \<Rightarrow> mstate list" where
  "matches (Cls its) ci st =
     (case ahead st of [] \<Rightarrow> []
      | c # cs \<Rightarrow> if class_match ci its c then [advance st c cs] else [])"
| "matches (NCls its) ci st =
     (case ahead st of [] \<Rightarrow> []
      | c # cs \<Rightarrow> if class_match ci its c then [] else [advance st c cs])"
| "matches AnyCh ci st =
     (case ahead st of [] \<Rightarrow> []
      | c # cs \<Rightarrow> if c = CHR 0x0A then [] else [advance st c cs])"
| "matches Eps ci st = [st]"
| "matches (Cat r1 r2) ci st = concat (map (matches r2 ci) (matches r1 ci st))"
| "matches (Alt r1 r2) ci st = matches r1 ci st @ matches r2 ci st"
| "matches (Rep lo hi r) ci st =
     concat (map (rep_greedy (matches r ci)
                    (case hi of None \<Rightarrow> length (ahead st) | Some h \<Rightarrow> h - lo))
                 (rep_exact (matches r ci) lo st))"
| "matches WordB ci st = (if at_boundary st then [st] else [])"
| "matches (Look r) ci st = (if matches r ci st = [] then [] else [st])"
| "matches (Grp n r) ci st =
     map (\<lambda>st'. MState (passed st') (ahead st')
                   ((n, rev (take (length (passed st') - length (passed st)) (passed st'))) # captured st'))
         (matches r ci st)"
| "matches Bol ci st = (if passed st = [] then [st] else [])"
| "matches Eol ci st = (if ahead st = [] \<or> ahead st = [CHR 0x0A] then [st] else [])"

text \<open>\<^verbatim>\<open>re.match(r, s)\<close> succeeds when \<open>r\<close> matches at the start of \<open>s\<close>.\<close>

definition re_match :: "re \<Rightarrow> bool \<Rightarrow> string \<Rightarrow> bool" where
  "re_match r ci s = (matches r ci (MState [] s []) \<noteq> [])"

text \<open>
  \<^verbatim>\<open>re.sub(r, repl, s)\<close> scans from the left: at each position it takes the first match of
  \<open>r\<close> there, writes \<open>repl\<close> of its groups and goes on behind the match, or copies one
  character when \<open>r\<close> does not match.  No pattern of the repository matches the empty
  string, so an empty match counts as none.
\<close>

definition first_match :: "re \<Rightarrow> bool \<Rightarrow> string \<Rightarrow> string \<Rightarrow> mstate option" where
  "first_match r ci sn rs =
     (case matches r ci (MState sn rs []) of
        [] \<Rightarrow> None
      | st' # _ \<Rightarrow> if length (ahead st') < length rs then Some st' else None)"

function re_sub_from ::
  "re \<Rightarrow> bool \<Rightarrow> ((nat \<times> string) list \<Rightarrow> string) \<Rightarrow> string \<Rightarrow> string \<Rightarrow> string" where
  "re_sub_from r ci repl sn rs =
     (case first_match r ci sn rs of
        Some st' \<Rightarrow> repl (captured st') @ re_sub_from r ci repl (passed st') (ahead st')
      | None \<Rightarrow> (case rs of [] \<Rightarrow> [] | c # cs \<Rightarrow> c # re_sub_from r ci repl (c # sn) cs))"
  by pat_completeness auto
termination
  by (relation "measure (\<lambda>(r, ci, repl, sn, rs). length rs)")
     (auto simp: first_match_def split: list.splits if_splits)

declare re_sub_from.simps [simp del]

definition re_sub :: "re \<Rightarrow> bool \<Rightarrow> ((nat \<times> string) list \<Rightarrow> string) \<Rightarrow> string \<Rightarrow> string" where
  "re_sub r ci repl s = re_sub_from r ci repl [] s"

definition const_repl :: "string \<Rightarrow> (nat \<times> string) list \<Rightarrow> string" where
  "const_repl s g = s"

definition group :: "(nat \<times> string) list \<Rightarrow> nat \<Rightarrow> string" where
  "group g n = (case map_of g n of None \<Rightarrow> [] | Some s \<Rightarrow> s)"

subsection \<open>Runs of whitespace\<close>



subsection \<open>Writing patterns\<close>

fun re_lit :: "string \<Rightarrow> re" where
  "re_lit [] = Eps"
| "re_lit [c] = Cls [CChar c]"
| "re_lit (c # cs) = Cat (Cls [CChar c]) (re_lit cs)"

fun re_seqs :: "re list \<Rightarrow> re" where
  "re_seqs [] = Eps"
| "re_seqs [r] = r"
| "re_seqs (r # rs) = Cat r (re_seqs rs)"

fun re_alts :: "re list \<Rightarrow> re" where
  "re_alts [] = NCls [CRange (CHR 0x00) (CHR 0xFF)]"
| "re_alts [r] = r"
| "re_alts (r # rs) = Alt r (re_alts rs)"

definition re_times :: "nat \<Rightarrow> re \<Rightarrow> re" where
  "re_times n r = Rep n (Some n) r"

definition re_plus :: "re \<Rightarrow> re" where
  "re_plus r = Rep 1 None r"

definition re_star :: "re \<Rightarrow> re" where
  "re_star r = Rep 0 None r"

definition re_opt :: "re \<Rightarrow> re" where
  "re_opt r = Rep 0 (Some 1) r"

section \<open>basic/minhash.py: the normalizer\<close>

record lsh_embedder =
  shingle_size :: int
  num_hashes :: int
  bands :: int
  rows_per_band :: int
  seed :: int
  normalize_enabled :: bool
  lowercase :: bool
  collapse_whitespace :: bool
  stop_short_lines :: int
  lsh_prime :: int
  max_hash :: int
  lsh_a :: "int list"
  lsh_b :: "int list"

subsection \<open>The patterns of \<^verbatim>\<open>_preprocess\<close>\<close>

definition c_09 :: citem where "c_09 = CRange CHR ''0'' CHR ''9''"
definition c_az :: citem where "c_az = CRange CHR ''a'' CHR ''z''"
definition c_AZ :: citem where "c_AZ = CRange CHR ''A'' CHR ''Z''"
definition c_af :: citem where "c_af = CRange CHR ''a'' CHR ''f''"

definition hex :: re where "hex = Cls [c_09, c_af]"
definition dig :: re where "dig = Cls [CDigit]"

text \<open>\<^verbatim>\<open>\b[0-9a-f]{8}-[0-9a-f]{4}-[1-5][0-9a-f]{3}-[89ab][0-9a-f]{3}-[0-9a-f]{12}\b\<close>, re.I\<close>

definition RE_UUID :: re where
  "RE_UUID = re_seqs [WordB, re_times 8 hex, re_lit ''-'', re_times 4 hex, re_lit ''-'',
     Cls [CRange CHR ''1'' CHR ''5''], re_times 3 hex, re_lit ''-'',
     Cls [CChar CHR ''8'', CChar CHR ''9'', CChar CHR ''a'', CChar CHR ''b''], re_times 3 hex,
     re_lit ''-'', re_times 12 hex, WordB]"

text \<open>\<^verbatim>\<open>\b0x[0-9a-f]+\b\<close>, re.I\<close>

definition RE_HEX_WORD :: re where
  "RE_HEX_WORD = re_seqs [WordB, re_lit ''0x'', re_plus hex, WordB]"

text \<open>\<^verbatim>\<open>\b[0-9a-f]{16,}\b\<close>, re.I\<close>

definition RE_HEX_LONG :: re where
  "RE_HEX_LONG = re_seqs [WordB, Rep 16 None hex, WordB]"

text \<open>\<^verbatim>\<open>\b(?:(?:25[0-5]|2[0-4]\d|1?\d?\d)\.){3}(?:25[0-5]|2[0-4]\d|1?\d?\d)\b\<close>\<close>

definition octet :: re where
  "octet = re_alts [re_seqs [re_lit ''25'', Cls [CRange CHR ''0'' CHR ''5'']],
                    re_seqs [re_lit ''2'', Cls [CRange CHR ''0'' CHR ''4''], dig],
                    re_seqs [re_opt (re_lit ''1''), re_opt dig, dig]]"

definition RE_IPv4 :: re where
  "RE_IPv4 = re_seqs [WordB, re_times 3 (Cat octet (re_lit ''.'')), octet, WordB]"

text \<open>\<^verbatim>\<open>\b(?:[0-9a-f]{1,4}:){2,7}[0-9a-f]{1,4}\b\<close>, re.I\<close>

definition RE_IPv6 :: re where
  "RE_IPv6 = re_seqs [WordB, Rep 2 (Some 7) (Cat (Rep 1 (Some 4) hex) (re_lit '':'')),
     Rep 1 (Some 4) hex, WordB]"

text \<open>\<^verbatim>\<open>\b(?:[0-9a-f]{2}[:-]){5}[0-9a-f]{2}\b\<close>, re.I\<close>

definition RE_MAC :: re where
  "RE_MAC = re_seqs [WordB,
     re_times 5 (Cat (re_times 2 hex) (Cls [CChar CHR '':'', CChar CHR ''-''])),
     re_times 2 hex, WordB]"

text \<open>\<^verbatim>\<open>\b\d{4}-\d{2}-\d{2}[T ]\d{2}:\d{2}:\d{2}(?:\.\d{1,9})?(?:Z|[+-]\d{2}:\d{2})?\b\<close>, re.I\<close>

definition RE_TS_ISO :: re where
  "RE_TS_ISO = re_seqs [WordB, re_times 4 dig, re_lit ''-'', re_times 2 dig, re_lit ''-'',
     re_times 2 dig, Cls [CChar CHR ''T'', CChar CHR '' ''],
     re_times 2 dig, re_lit '':'', re_times 2 dig, re_lit '':'', re_times 2 dig,
     re_opt (Cat (re_lit ''.'') (Rep 1 (Some 9) dig)),
     re_opt (Alt (re_lit ''Z'')
                 (re_seqs [Cls [CChar CHR ''+'', CChar CHR ''-''], re_times 2 dig, re_lit '':'',
                           re_times 2 dig])),
     WordB]"

text \<open>\<^verbatim>\<open>\b\d{4}/\d{2}/\d{2}\b\<close>\<close>

definition RE_TS_DATE :: re where
  "RE_TS_DATE = re_seqs [WordB, re_times 4 dig, re_lit ''/'', re_times 2 dig, re_lit ''/'',
     re_times 2 dig, WordB]"

text \<open>\<^verbatim>\<open>\b\d{2}:\d{2}:\d{2}(?:\.\d+)?\b\<close>\<close>

definition RE_TS_TIME :: re where
  "RE_TS_TIME = re_seqs [WordB, re_times 2 dig, re_lit '':'', re_times 2 dig, re_lit '':'',
     re_times 2 dig, re_opt (Cat (re_lit ''.'') (re_plus dig)), WordB]"

text \<open>\<^verbatim>\<open>\bhttps?://[^\s"'<>]+\<close>, re.I\<close>

definition RE_URL :: re where
  "RE_URL = re_seqs [WordB, re_lit ''http'', re_opt (re_lit ''s''), re_lit ''://'',
     re_plus (NCls [CSpace, CChar (CHR 0x22), CChar (CHR 0x27), CChar CHR ''<'', CChar CHR ''>''])]"

text \<open>\<^verbatim>\<open>\b[a-z0-9._%+-]+@[a-z0-9.-]+\.[a-z]{2,}\b\<close>, re.I\<close>

definition RE_EMAIL :: re where
  "RE_EMAIL = re_seqs [WordB,
     re_plus (Cls [c_az, c_09, CChar CHR ''.'', CChar CHR ''_'', CChar CHR ''%'', CChar CHR ''+'',
                   CChar CHR ''-'']),
     re_lit ''@'',
     re_plus (Cls [c_az, c_09, CChar CHR ''.'', CChar CHR ''-'']),
     re_lit ''.'', Rep 2 None (Cls [c_az]), WordB]"

text \<open>\<^verbatim>\<open>\barn:aws[a-z-]*:[a-z0-9-]+:[a-z0-9-]*:\d{12}:[^\s"']+\b\<close>, re.I\<close>

definition RE_ARN :: re where
  "RE_ARN = re_seqs [WordB, re_lit ''arn:aws'', re_star (Cls [c_az, CChar CHR ''-'']), re_lit '':'',
     re_plus (Cls [c_az, c_09, CChar CHR ''-'']), re_lit '':'',
     re_star (Cls [c_az, c_09, CChar CHR ''-'']), re_lit '':'',
     re_times 12 dig, re_lit '':'',
     re_plus (NCls [CSpace, CChar (CHR 0x22), CChar (CHR 0x27)]), WordB]"

text \<open>\<^verbatim>\<open>\beyJ[a-zA-Z0-9_-]{10,}\.[a-zA-Z0-9_-]{10,}\.[a-zA-Z0-9_-]{10,}\b\<close>\<close>

definition jwt_part :: re where
  "jwt_part = Rep 10 None (Cls [c_az, c_AZ, c_09, CChar CHR ''_'', CChar CHR ''-''])"

definition RE_JWT :: re where
  "RE_JWT = re_seqs [WordB, re_lit ''eyJ'', jwt_part, re_lit ''.'', jwt_part, re_lit ''.'',
     jwt_part, WordB]"

text \<open>\<^verbatim>\<open>\b(?:[A-Za-z0-9+/]{20,}={0,2})\b\<close>\<close>

definition RE_B64 :: re where
  "RE_B64 = re_seqs [WordB,
     Rep 20 None (Cls [c_AZ, c_az, c_09, CChar CHR ''+'', CChar CHR ''/'']),
     Rep 0 (Some 2) (re_lit ''=''), WordB]"

text \<open>\<^verbatim>\<open>\b\d+\b\<close>\<close>

definition RE_NUM :: re where
  "RE_NUM = re_seqs [WordB, re_plus dig, WordB]"

text \<open>
  \<^verbatim>\<open>(?i)\b(trace[_-]?id|span[_-]?id|...|uid|user[_-]?id|...|org[_-]?id)\s*([=:])\s*([A-Za-z0-9._:/+=-]{6,})\b\<close>
\<close>

definition kv_key :: "string \<Rightarrow> re" where
  "kv_key w = re_seqs [re_lit w, re_opt (Cls [CChar CHR ''_'', CChar CHR ''-'']), re_lit ''id'']"

definition RE_KV_ID :: re where
  "RE_KV_ID = re_seqs [WordB,
     Grp 1 (re_alts [kv_key ''trace'', kv_key ''span'', kv_key ''request'', kv_key ''req'',
                     kv_key ''correlation'', kv_key ''session'', kv_key ''event'',
                     kv_key ''message'', kv_key ''msg'', kv_key ''job'', kv_key ''task'',
                     kv_key ''txn'', kv_key ''transaction'', kv_key ''op'', kv_key ''operation'',
                     kv_key ''run'', re_lit ''uid'', kv_key ''user'', kv_key ''account'',
                     kv_key ''customer'', kv_key ''tenant'', kv_key ''org'']),
     re_star (Cls [CSpace]),
     Grp 2 (Cls [CChar CHR ''='', CChar CHR '':'']),
     re_star (Cls [CSpace]),
     Grp 3 (Rep 6 None (Cls [c_AZ, c_az, c_09, CChar CHR ''.'', CChar CHR ''_'', CChar CHR '':'',
                             CChar CHR ''/'', CChar CHR ''+'', CChar CHR ''='', CChar CHR ''-''])),
     WordB]"

text \<open>\<^verbatim>\<open>\b(?=[A-Za-z0-9_-]{12,}\b)(?=.*[A-Za-z])(?=.*\d)[A-Za-z0-9_-]+\b\<close>\<close>

definition tok :: re where
  "tok = Cls [c_AZ, c_az, c_09, CChar CHR ''_'', CChar CHR ''-'']"

definition RE_LONG_ALNUM :: re where
  "RE_LONG_ALNUM = re_seqs [WordB,
     Look (Cat (Rep 12 None tok) WordB),
     Look (Cat (re_star AnyCh) (Cls [c_AZ, c_az])),
     Look (Cat (re_star AnyCh) dig),
     re_plus tok, WordB]"

text \<open>\<^verbatim>\<open>\b[A-Za-z0-9]{18,}\b\<close>\<close>

definition RE_MIXED_TOKEN :: re where
  "RE_MIXED_TOKEN = re_seqs [WordB, Rep 18 None (Cls [c_AZ, c_az, c_09]), WordB]"

text \<open>\<^verbatim>\<open>\s+\<close>\<close>

definition RE_WS :: re where
  "RE_WS = re_plus (Cls [CSpace])"

subsection \<open>\<^verbatim>\<open>_preprocess\<close>\<close>

definition mask_kv :: "(nat \<times> string) list \<Rightarrow> string" where
  "mask_kv g = group g 1 @ group g 2 @ ''<id>''"





section \<open>basic/minhash.py: the fingerprinter\<close>


subsection \<open>Decimal, hexadecimal and byte helpers\<close>

definition digit_char :: "nat \<Rightarrow> char" where
  "digit_char d = (''0123456789abcdef'' ! d)"

fun digits_of_nat :: "nat \<Rightarrow> string" where
  "digits_of_nat n =
     (if n < 10 then [digit_char n] else digits_of_nat (n div 10) @ [digit_char (n mod 10)])"

definition py_str_int :: "int \<Rightarrow> string" where
  "py_str_int i = (if i < 0 then CHR ''-'' # digits_of_nat (nat (- i)) else digits_of_nat (nat i))"

definition from_bytes_little :: "string \<Rightarrow> int" where
  "from_bytes_little bs = foldr (\<lambda>c acc. int (of_char c) + 256 * acc) bs 0"



subsection \<open>Construction\<close>

text \<open>
  \<^verbatim>\<open>hashlib.blake2b(data, digest_size=n).digest()\<close> is a parameter \<open>blake2b n data\<close> of the
  model: the library is not part of the repository.  Strings and byte strings are both
  \<^typ>\<open>string\<close>; encoding ASCII text as UTF-8 changes nothing.
\<close>

definition make_hash_params :: "(nat \<Rightarrow> string \<Rightarrow> string) \<Rightarrow> int \<Rightarrow> int \<Rightarrow> int list \<times> int list" where
  "make_hash_params blake2b k sd =
     (let hs = map (\<lambda>i. blake2b 16 (py_str_int sd @ '':'' @ py_str_int (int i))) [0..<nat k]
      in (map (\<lambda>h. from_bytes_little (take 8 h) OR 1) hs,
          map (\<lambda>h. from_bytes_little (drop 8 h)) hs))"

definition LSHMinHashEmbedder_init ::
  "(nat \<Rightarrow> string \<Rightarrow> string) \<Rightarrow> int \<Rightarrow> int \<Rightarrow> int \<Rightarrow> int \<Rightarrow> bool \<Rightarrow> bool \<Rightarrow> bool \<Rightarrow> int
     \<Rightarrow> error + lsh_embedder" where
  "LSHMinHashEmbedder_init blake2b shingle_size' num_hashes' bands' seed' normalize' lowercase'
       collapse_whitespace' stop_short_lines' =
     (if shingle_size' \<le> 0 then Inl (ValueError [Lit ''shingle_size must be > 0''])
      else if num_hashes' \<le> 0 then Inl (ValueError [Lit ''num_hashes must be > 0''])
      else if bands' \<le> 0 \<or> num_hashes' mod bands' \<noteq> 0
        then Inl (ValueError [Lit ''bands must be > 0 and must divide num_hashes exactly''])
      else
        (let ab = make_hash_params blake2b num_hashes' seed' in
         Inr \<lparr> shingle_size = shingle_size',
               num_hashes = num_hashes',
               bands = bands',
               rows_per_band = num_hashes' div bands',
               seed = seed',
               normalize_enabled = normalize',
               lowercase = lowercase',
               collapse_whitespace = collapse_whitespace',
               stop_short_lines = stop_short_lines',
               lsh_prime = 4294967311,
               max_hash = 2 ^ 32 - 1,
               lsh_a = fst ab,
               lsh_b = snd ab \<rparr>))"

subsection \<open>Shingling\<close>



subsection \<open>MinHash signature and band keys\<close>




subsection \<open>\<^verbatim>\<open>embed\<close> and exact Jaccard\<close>



definition jaccard :: "int fset \<Rightarrow> int fset \<Rightarrow> real" where
  "jaccard shingles_a shingles_b =
     (if shingles_a = {||} \<and> shingles_b = {||} then 1
      else if shingles_a = {||} \<or> shingles_b = {||} then 0
      else real (fcard (shingles_a |\<inter>| shingles_b)) / real (fcard (shingles_a |\<union>| shingles_b)))"

section \<open>basic/filter\_adapter.py: the filter compiler\<close>

text \<open>
  The predicate classes of the search engine's client library (\<^verbatim>\<open>models.FieldCondition\<close>,
  \<^verbatim>\<open>models.Filter\<close>, ...) are datatypes whose constructors take what the source passes;
  the library's own validation of these arguments is not part of the repository.
  \<^verbatim>\<open>str(value)\<close> is the parameter \<open>py_str\<close>.
\<close>

datatype py_match =
    MatchValue pyval
  | MatchAny "pyval list"
  | MatchExcept "pyval list"
  | MatchText string
  | MatchPhrase string

text \<open>The arguments of both range classes are \<open>gt\<close>, \<open>gte\<close>, \<open>lt\<close>, \<open>lte\<close>.\<close>

datatype py_range =
    DatetimeRange pyval pyval pyval pyval
  | Range pyval pyval pyval pyval

datatype field_test =
    Match py_match
  | IsNull bool
  | IsEmpty bool
  | InRange py_range

text \<open>\<open>Filter must should min_should must_not\<close>; an argument the source omits is \<open>None\<close>.\<close>

datatype condition =
    FieldCondition pyval field_test
  | HasIdCondition "pyval list"
  | FilterCondition py_filter
and py_filter =
    Filter "condition list option" "condition list option" "int option" "condition list option"

datatype adapter_result = Filters "py_filter list" | OneFilter py_filter

definition sq :: string where
  "sq = [CHR 0x27]"

definition as_list :: "pyval \<Rightarrow> pyval list" where
  "as_list x = (case x of PNone \<Rightarrow> [] | PList xs \<Rightarrow> xs | _ \<Rightarrow> [x])"

text \<open>\<^verbatim>\<open>value.split(",", 1)\<close> on a string that holds a comma.\<close>

definition split_comma :: "string \<Rightarrow> string \<times> string" where
  "split_comma s = (takeWhile (\<lambda>c. c \<noteq> CHR '','') s, tl (dropWhile (\<lambda>c. c \<noteq> CHR '','') s))"

definition parse_range_value :: "pyval \<Rightarrow> error + (string \<times> pyval) list" where
  "parse_range_value v =
     (case v of
        PDict d \<Rightarrow> Inr d
      | PList [a, b] \<Rightarrow> Inr [(''gte'', a), (''lte'', b)]
      | PTuple [a, b] \<Rightarrow> Inr [(''gte'', a), (''lte'', b)]
      | PStr s \<Rightarrow>
          if CHR '','' \<in> set s
          then (let (a, b) = split_comma s in
                Inr [(''gte'', PStr (py_strip a)), (''lte'', PStr (py_strip b))])
          else Inl (ValueError [Lit ''Unsupported range value format: '', Repr v])
      | _ \<Rightarrow> Inl (ValueError [Lit ''Unsupported range value format: '', Repr v]))"

text \<open>\<^verbatim>\<open>(spec.get(k) or dflt).lower()\<close>: a truthy value that is not a string has no \<^verbatim>\<open>lower\<close>.\<close>

definition get_lowered :: "(string \<times> pyval) list \<Rightarrow> string \<Rightarrow> string \<Rightarrow> error + string" where
  "get_lowered spec k dflt =
     (let v = dict_get spec k PNone in
      if truthy v then (case v of PStr s \<Rightarrow> Inr (py_lower s) | _ \<Rightarrow> Inl AttributeError)
      else Inr (py_lower dflt))"

definition field_condition_from_atomic ::
  "(pyval \<Rightarrow> string) \<Rightarrow> (string \<times> pyval) list \<Rightarrow> error + condition" where
  "field_condition_from_atomic py_str spec =
     (let key = dict_get spec ''key'' PNone in
      case get_lowered spec ''dtype'' ''string'' of Inl err \<Rightarrow> Inl err | Inr dtype \<Rightarrow>
      case get_lowered spec ''op'' ''equals'' of Inl err \<Rightarrow> Inl err | Inr op \<Rightarrow>
      (let val = dict_get spec ''value'' PNone in
       if \<not> truthy key \<and> op \<noteq> ''has_id''
         then Inl (ValueError [Lit (''Missing '' @ sq @ ''key'' @ sq @ '' in spec: ''), Fmt (PDict spec)])
       else if op = ''has_id'' then Inr (HasIdCondition (as_list val))
       else if op \<in> {''equals'', ''eq''} then Inr (FieldCondition key (Match (MatchValue val)))
       else if op \<in> {''in''} then Inr (FieldCondition key (Match (MatchAny (as_list val))))
       else if op \<in> {''not_in''} then Inr (FieldCondition key (Match (MatchExcept (as_list val))))
       else if op \<in> {''contains'', ''text''}
         then Inr (FieldCondition key (Match (MatchText (py_str val))))
       else if op \<in> {''phrase''} then Inr (FieldCondition key (Match (MatchPhrase (py_str val))))
       else if op \<in> {''prefix''} then Inr (FieldCondition key (Match (MatchText (py_str val))))
       else if op \<in> {''exists'', ''has_field''} then Inr (FieldCondition key (IsNull False))
       else if op \<in> {''is_null''} then Inr (FieldCondition key (IsNull True))
       else if op \<in> {''is_empty''} then Inr (FieldCondition key (IsEmpty True))
       else if op \<in> {''gt'', ''gte'', ''lt'', ''lte'', ''between'', ''range''} then
         (case (if op \<in> {''between'', ''range''} then parse_range_value val else Inr [(op, val)]) of
            Inl err \<Rightarrow> Inl err
          | Inr r \<Rightarrow>
              if dtype \<in> {''datetime'', ''date'', ''timestamp''}
              then Inr (FieldCondition key (InRange (DatetimeRange
                     (dict_get r ''gt'' PNone) (dict_get r ''gte'' PNone)
                     (dict_get r ''lt'' PNone) (dict_get r ''lte'' PNone))))
              else Inr (FieldCondition key (InRange (Range
                     (dict_get r ''gt'' PNone) (dict_get r ''gte'' PNone)
                     (dict_get r ''lt'' PNone) (dict_get r ''lte'' PNone)))))
       else Inl (ValueError [Lit ''Unsupported op='', Repr (PStr op), Lit '' for spec: '',
                             Fmt (PDict spec)])))"

text \<open>
  \<^verbatim>\<open>_build_filter_from_expr\<close>.  The three loops over \<open>clauses\<close> (for \<open>and\<close>, \<open>or\<close> and
  \<open>not\<close>) have the same body, which is \<open>build_clauses\<close>: a clause with a truthy \<open>logic\<close>
  is compiled recursively and embedded, any other clause is compiled as an atomic spec; a
  clause that is not a dictionary has no \<^verbatim>\<open>get\<close>.  The first exception ends the loop.
\<close>

function build_filter_from_expr :: "(pyval \<Rightarrow> string) \<Rightarrow> (string \<times> pyval) list \<Rightarrow> error + py_filter"
  and build_clauses :: "(pyval \<Rightarrow> string) \<Rightarrow> pyval list \<Rightarrow> error + condition list" where
  "build_filter_from_expr py_str expr =
     (let logic = dict_get expr ''logic'' PNone in
      if \<not> truthy logic then
        (case field_condition_from_atomic py_str expr of
           Inl err \<Rightarrow> Inl err
         | Inr cond \<Rightarrow> Inr (Filter (Some [cond]) None None None))
      else
        (case logic of
           PStr l \<Rightarrow>
             (let logic = py_lower l; clauses = dict_get expr ''clauses'' (PList []) in
              case clauses of
                PList cs \<Rightarrow>
                  if cs = [] then
                    Inl (ValueError [Lit (''Logical expr must have non-empty list '' @ sq @ ''clauses''
                                          @ sq @ '': ''), Fmt (PDict expr)])
                  else if logic = ''and'' then
                    (case build_clauses py_str cs of
                       Inl err \<Rightarrow> Inl err
                     | Inr must_conds \<Rightarrow> Inr (Filter (Some must_conds) None None None))
                  else if logic = ''or'' then
                    (case build_clauses py_str cs of
                       Inl err \<Rightarrow> Inl err
                     | Inr should_conds \<Rightarrow> Inr (Filter None (Some should_conds) (Some 1) None))
                  else if logic = ''not'' then
                    (case build_clauses py_str cs of
                       Inl err \<Rightarrow> Inl err
                     | Inr must_not_conds \<Rightarrow> Inr (Filter None None None (Some must_not_conds)))
                  else Inl (ValueError [Lit ''Unsupported logic='', Repr (PStr logic),
                                        Lit '' in expr: '', Fmt (PDict expr)])
              | _ \<Rightarrow>
                  Inl (ValueError [Lit (''Logical expr must have non-empty list '' @ sq @ ''clauses''
                                        @ sq @ '': ''), Fmt (PDict expr)]))
         | _ \<Rightarrow> Inl AttributeError))"
| "build_clauses py_str [] = Inr []"
| "build_clauses py_str (c # cs) =
     (case c of
        PDict d \<Rightarrow>
          (case (if truthy (dict_get d ''logic'' PNone)
                 then (case build_filter_from_expr py_str d of
                         Inl err \<Rightarrow> Inl err
                       | Inr f \<Rightarrow> Inr (FilterCondition f))
                 else field_condition_from_atomic py_str d) of
             Inl err \<Rightarrow> Inl err
           | Inr cond \<Rightarrow>
               (case build_clauses py_str cs of
                  Inl err \<Rightarrow> Inl err
                | Inr conds \<Rightarrow> Inr (cond # conds)))
      | _ \<Rightarrow> Inl AttributeError)"
  by pat_completeness auto
termination
proof -
  have get_size: "map_of d k = Some v \<Longrightarrow> size v < size (PDict d)"
    for d :: "(string \<times> pyval) list" and k v
    by (induction d) (auto split: if_splits)
  have dict_size: "size_list size cs < size_list (size_prod (\<lambda>x. 0) size) d"
    if "dict_get d k (PList []) = PList cs" "cs \<noteq> []"
    for d :: "(string \<times> pyval) list" and k cs
    using that get_size [of d k "PList cs"] by (auto simp: dict_get_def split: option.splits)
  show ?thesis
    by (relation "measure (\<lambda>x. case x of Inl (_, expr) \<Rightarrow> size (PDict expr)
                                      | Inr (_, cs) \<Rightarrow> size (PList cs))")
       (auto intro: dict_size)
qed

declare build_filter_from_expr.simps [simp del]

definition map_err :: "('a \<Rightarrow> error + 'b) \<Rightarrow> 'a list \<Rightarrow> error + 'b list" where
  "map_err f xs =
     foldr (\<lambda>x acc. case f x of Inl err \<Rightarrow> Inl err
                     | Inr y \<Rightarrow> (case acc of Inl err \<Rightarrow> Inl err | Inr ys \<Rightarrow> Inr (y # ys)))
           xs (Inr [])"

definition adapter_specs_to_filters ::
  "(pyval \<Rightarrow> string) \<Rightarrow> (string \<times> pyval) list list \<Rightarrow> string \<Rightarrow> error + adapter_result" where
  "adapter_specs_to_filters py_str specs mode' =
     (let mode = py_lower mode' in
      if list_ex (\<lambda>s. map_of s ''logic'' \<noteq> None) specs then
        (case map_err (build_filter_from_expr py_str) specs of
           Inl err \<Rightarrow> Inl err
         | Inr filters \<Rightarrow> Inr (Filters filters))
      else
        (case map_err (field_condition_from_atomic py_str) specs of
           Inl err \<Rightarrow> Inl err
         | Inr conds \<Rightarrow>
             if mode = ''and'' then Inr (OneFilter (Filter (Some conds) None None None))
             else if mode = ''or'' then Inl NotImplementedError
             else Inl (ValueError [Lit ''Unsupported mode='', Repr (PStr mode),
                                   Lit (''. Use '' @ sq @ ''and'' @ sq @ '' or '' @ sq @ ''or'' @ sq @ ''.'')])))"

subsection \<open>Malformed specs in the words of the specification\<close>

text \<open>
  The operators an atomic spec may name; the shapes a \<open>between\<close>/\<open>range\<close> value may have (a
  dict, a sequence of two elements, a string that holds a comma); and a logical spec whose
  \<open>clauses\<close> is missing, not a list, or empty.
\<close>

definition supported_ops :: "string list" where
  "supported_ops =
     [''has_id'', ''equals'', ''eq'', ''in'', ''not_in'', ''contains'', ''text'', ''phrase'', ''prefix'',
      ''exists'', ''has_field'', ''is_null'', ''is_empty'', ''gt'', ''gte'', ''lt'', ''lte'', ''between'',
      ''range'']"

definition range_value_ok :: "pyval \<Rightarrow> bool" where
  "range_value_ok v =
     (case v of
        PDict d \<Rightarrow> True
      | PList xs \<Rightarrow> length xs = 2
      | PTuple xs \<Rightarrow> length xs = 2
      | PStr s \<Rightarrow> CHR '','' \<in> set s
      | _ \<Rightarrow> False)"

definition clauses_malformed :: "(string \<times> pyval) list \<Rightarrow> bool" where
  "clauses_malformed expr =
     (case map_of expr ''clauses'' of
        None \<Rightarrow> True
      | Some (PList cs) \<Rightarrow> cs = []
      | Some _ \<Rightarrow> True)"

text \<open>How one clause of a logical spec is compiled.\<close>

definition compile_clause :: "(pyval \<Rightarrow> string) \<Rightarrow> pyval \<Rightarrow> error + condition" where
  "compile_clause py_str c =
     (case c of
        PDict d \<Rightarrow>
          if truthy (dict_get d ''logic'' PNone)
          then (case build_filter_from_expr py_str d of
                  Inl err \<Rightarrow> Inl err
                | Inr f \<Rightarrow> Inr (FilterCondition f))
          else field_condition_from_atomic py_str d
      | _ \<Rightarrow> Inl AttributeError)"

section \<open>basic/vector\_store.py, lookup\_db\_store.py and log\_ingestion\_handler.py\<close>

text \<open>
  A log entry is a dictionary with the keys of the \<^verbatim>\<open>Insertable\<close> model; the caller may or
  may not have set \<^verbatim>\<open>insert_timestamp\<close>.  Entries are distinct objects.
\<close>

record insertable =
  ins_text :: string
  metadata :: "(string \<times> pyval) list"
  insert_timestamp :: "string option"

text \<open>What the search engine returns: scored points in a response, plain records from a scroll.\<close>

record scored_point =
  sp_id :: pyval
  score :: real
  sp_payload :: "(string \<times> pyval) list"

record query_response =
  points :: "scored_point list"

record stored_record =
  rec_id :: pyval
  rec_payload :: "(string \<times> pyval) list"

text \<open>What the pipeline sends out: a row for the lookup table, a point for the vector store.\<close>

record lookup_record =
  log_id :: string
  closest_log_id :: string
  similarity :: real
  timestamp :: pyval
  location :: pyval

record point_struct =
  point_id :: string
  vector :: "int list"
  payload :: "(string \<times> pyval) list"

datatype event = LookupInsert lookup_record | Upsert point_struct

text \<open>
  The handler with its collaborators.  The embedder, \<^verbatim>\<open>hashlib.md5(...).hexdigest()\<close>
  (\<open>hash_text_to_string\<close>), Python's \<^verbatim>\<open>str\<close> (\<open>str_of\<close>), the clock (\<open>get_time h k\<close> is what
  the \<open>k\<close>-th call of \<^verbatim>\<open>get_time()\<close> returns) and the two read operations of the search
  engine are parameters.  The collaborators' writes are recorded as events in the order in
  which they are issued; a failure of a collaborator is not modelled.
\<close>

record handler =
  embed_text :: "string \<Rightarrow> int list"
  hash_text_to_string :: "string \<Rightarrow> string"
  str_of :: "pyval \<Rightarrow> string"
  get_time :: "nat \<Rightarrow> string"
  search_batch :: "pyval list \<Rightarrow> adapter_result list option \<Rightarrow> int \<Rightarrow> query_response list option"
  scroll :: "adapter_result option \<Rightarrow> int \<Rightarrow> stored_record list"
  insert_sim_threshold :: real
  sim_sync_batch_size :: int

subsection \<open>\<^verbatim>\<open>VectorStore\<close>\<close>

text \<open>\<^verbatim>\<open>^\d{4}-\d{2}-\d{2}T\d{2}:\d{2}:\d{2}(\.\d+)?Z$\<close>\<close>

definition ISO_8601_UTC_REGEX :: re where
  "ISO_8601_UTC_REGEX = re_seqs [Bol, re_times 4 dig, re_lit ''-'', re_times 2 dig, re_lit ''-'',
     re_times 2 dig, re_lit ''T'', re_times 2 dig, re_lit '':'', re_times 2 dig, re_lit '':'',
     re_times 2 dig, re_opt (Grp 1 (Cat (re_lit ''.'') (re_plus dig))), re_lit ''Z'', Eol]"

definition VectorStore_hash :: "handler \<Rightarrow> insertable \<Rightarrow> string" where
  "VectorStore_hash h ins =
     hash_text_to_string h (ins_text ins @ ''-'' @ str_of h (PDict (metadata ins)))"

definition upsert_point :: "handler \<Rightarrow> insertable \<Rightarrow> string \<Rightarrow> point_struct" where
  "upsert_point h ins ts =
     \<lparr> point_id = VectorStore_hash h ins,
       vector = embed_text h (ins_text ins),
       payload = dict_set (metadata ins) ''insert_timestamp'' (PStr ts) \<rparr>"

text \<open>
  \<^verbatim>\<open>inserts\<close>: \<open>k\<close> counts the calls of \<^verbatim>\<open>get_time()\<close> made so far, \<open>tr\<close> is the trace of
  events so far.  The result is the exception raised, if any, and the trace.
\<close>

fun inserts :: "handler \<Rightarrow> nat \<Rightarrow> insertable list \<Rightarrow> event list \<Rightarrow> error option \<times> event list" where
  "inserts h k [] tr = (None, tr)"
| "inserts h k (obj # objs) tr =
     (case insert_timestamp obj of
        None \<Rightarrow> inserts h (Suc k) objs (tr @ [Upsert (upsert_point h obj (get_time h k))])
      | Some ts \<Rightarrow>
          if re_match ISO_8601_UTC_REGEX False ts
          then inserts h k objs (tr @ [Upsert (upsert_point h obj ts)])
          else (Some (ValueError [Lit ''insert_timestamp must be in ISO 8601 UTC format (...Z): '',
                                  Fmt (PStr ts)]), tr))"

subsection \<open>\<^verbatim>\<open>LogIngestionHtbridHandler.insert_logs\<close>\<close>

record loop_state =
  entries_done :: "insertable list"
  trace :: "event list"
  vector_store_inserts :: "insertable list"

text \<open>
  The loop over \<^verbatim>\<open>zip(log_entries, search_results)\<close>; \<open>k\<close> is the index of the entry, which
  is also the number of \<^verbatim>\<open>get_time()\<close> calls made before it.  \<open>entries_done\<close> collects the
  entries as the loop leaves them (they are mutated in place in the caller's list).
\<close>

fun classify_entries ::
  "handler \<Rightarrow> nat \<Rightarrow> (insertable \<times> query_response option) list \<Rightarrow> loop_state
     \<Rightarrow> error option \<times> loop_state" where
  "classify_entries h k [] st = (None, st)"
| "classify_entries h k ((entry0, result) # remaining) st =
     (let entry = entry0 \<lparr> insert_timestamp := Some (get_time h k) \<rparr>;
          entry = entry \<lparr> metadata := dict_set (metadata entry) ''sim_sync'' (PBool False) \<rparr>;
          hashval = VectorStore_hash h entry;
          self_record = \<lparr> log_id = hashval, closest_log_id = hashval, similarity = 1,
                          timestamp = dict_get (metadata entry) ''timestamp'' (PStr ''''),
                          location = dict_get (metadata entry) ''pod_name'' (PStr '''') \<rparr>;
          st = st \<lparr> entries_done := entries_done st @ [entry] \<rparr>
      in case result of
           None \<Rightarrow> (Some AttributeError, st)
         | Some res \<Rightarrow>
             (case points res of
                top_point # _ \<Rightarrow>
                  (let sim = score top_point in
                   if insert_sim_threshold h \<le> sim then
                     classify_entries h (Suc k) remaining
                       (st \<lparr> trace := trace st @
                          [LookupInsert \<lparr> log_id = hashval,
                                          closest_log_id = str_of h (sp_id top_point),
                                          similarity = sim,
                                          timestamp = dict_get (metadata entry) ''timestamp'' (PStr ''''),
                                          location = dict_get (metadata entry) ''pod_name'' (PStr '''') \<rparr>] \<rparr>)
                   else
                     classify_entries h (Suc k) remaining
                       (st \<lparr> trace := trace st @ [LookupInsert self_record],
                             vector_store_inserts := vector_store_inserts st @ [entry] \<rparr>))
              | [] \<Rightarrow>
                  classify_entries h (Suc k) remaining
                    (st \<lparr> trace := trace st @ [LookupInsert self_record],
                          vector_store_inserts := vector_store_inserts st @ [entry] \<rparr>)))"

record run_result =
  raised :: "error option"
  log_entries_after :: "insertable list"
  effects :: "event list"

definition insert_logs :: "handler \<Rightarrow> insertable list \<Rightarrow> run_result" where
  "insert_logs h log_entries =
     (let texts = map (\<lambda>entry. PStr (ins_text entry)) log_entries;
          search_results = search_batch h texts None 1;
          search_results =
            (case search_results of
               None \<Rightarrow> replicate (length log_entries) None
             | Some rs \<Rightarrow> if length rs = 0 then replicate (length log_entries) None
                          else map Some rs);
          (err, st) = classify_entries h 0 (zip log_entries search_results)
                        \<lparr> entries_done = [], trace = [], vector_store_inserts = [] \<rparr>;
          after = entries_done st @ drop (length (entries_done st)) log_entries
      in case err of
           Some e \<Rightarrow> \<lparr> raised = Some e, log_entries_after = after, effects = trace st \<rparr>
         | None \<Rightarrow>
             if vector_store_inserts st \<noteq> [] then
               (let (err', tr) = inserts h (length (entries_done st)) (vector_store_inserts st) (trace st)
                in \<lparr> raised = err', log_entries_after = after, effects = tr \<rparr>)
             else \<lparr> raised = None, log_entries_after = after, effects = trace st \<rparr>)"

subsection \<open>\<^verbatim>\<open>LogIngestionHtbridHandler.sync_similarty\<close>\<close>

fun sync_loop ::
  "handler \<Rightarrow> (stored_record \<times> query_response) list \<Rightarrow> (pyval \<times> string \<times> real) list
     \<Rightarrow> error + (pyval \<times> string \<times> real) list" where
  "sync_loop h [] edges_to_update = Inr edges_to_update"
| "sync_loop h ((point, result) # remaining) edges_to_update =
     (if points result \<noteq> [] \<and> 0 < length (points result) then
        (case points result of
           _ # top_point # _ \<Rightarrow>
             sync_loop h remaining
               (edges_to_update @ [(rec_id point, str_of h (sp_id top_point), score top_point)])
         | _ \<Rightarrow> Inl IndexError)
      else sync_loop h remaining edges_to_update)"

definition sync_similarty :: "handler \<Rightarrow> error + (pyval \<times> string \<times> real) list" where
  "sync_similarty h =
     (case adapter_specs_to_filters (str_of h)
             [[(''key'', PStr ''sim_sync''), (''dtype'', PStr ''boolean''), (''op'', PStr ''equals''),
               (''value'', PBool False)]] ''and'' of
        Inl err \<Rightarrow> Inl err
      | Inr filter' \<Rightarrow>
          (let unsync_points = scroll h (Some filter') (sim_sync_batch_size h);
               texts = map (\<lambda>p. dict_get (rec_payload p) ''textPayload'' (PStr '''')) unsync_points
           in case search_batch h texts (Some (replicate (length texts) filter')) 2 of
                None \<Rightarrow> Inl TypeError
              | Some search_results \<Rightarrow> sync_loop h (zip unsync_points search_results) []))"

subsection \<open>The decision of \<^verbatim>\<open>insert_logs\<close> in the words of the specification\<close>

text \<open>
  The entry as the pipeline annotates it, whether a response makes an entry a duplicate
  (a top match whose score reaches the threshold), and the lookup record that is then due:
  one that points at the matched id with the match's score for a duplicate, a
  self-referencing one with similarity 1 otherwise.
\<close>

definition spec_annotated :: "handler \<Rightarrow> nat \<Rightarrow> insertable \<Rightarrow> insertable" where
  "spec_annotated h k entry =
     \<lparr> ins_text = ins_text entry,
       metadata = dict_set (metadata entry) ''sim_sync'' (PBool False),
       insert_timestamp = Some (get_time h k) \<rparr>"

definition spec_canonical_id :: "handler \<Rightarrow> insertable \<Rightarrow> string" where
  "spec_canonical_id h entry =
     hash_text_to_string h
       (ins_text entry @ ''-'' @ str_of h (PDict (dict_set (metadata entry) ''sim_sync'' (PBool False))))"



subsection \<open>A concrete handler for the scenarios of the specification\<close>

text \<open>
  Stand-ins for the collaborators: the digest is the identity, \<^verbatim>\<open>str\<close> shows a string as it
  is, the clock always shows the same instant, the embedder returns one fixed vector, the
  threshold is 0.9.  The search engine answers every batch query with \<open>answer\<close> and every
  scroll with \<open>unsynced\<close>.
\<close>

definition demo_str :: "pyval \<Rightarrow> string" where
  "demo_str v = (case v of PStr s \<Rightarrow> s | _ \<Rightarrow> ''?'')"

definition demo_handler :: "query_response list option \<Rightarrow> stored_record list \<Rightarrow> handler" where
  "demo_handler answer unsynced =
     \<lparr> embed_text = (\<lambda>txt. [4294967295]),
       hash_text_to_string = (\<lambda>s. s),
       str_of = demo_str,
       get_time = (\<lambda>k. ''2026-01-19T12:34:56.789Z''),
       search_batch = (\<lambda>queries filters top_k. answer),
       scroll = (\<lambda>filters batch_size. unsynced),
       insert_sim_threshold = 9 / 10,
       sim_sync_batch_size = 10 \<rparr>"

definition E1 :: insertable where
  "E1 = \<lparr> ins_text = ''disk full on node 7'',
          metadata = [(''pod_name'', PStr ''api-0'')],
          insert_timestamp = None \<rparr>"



definition no_match :: query_response where
  "no_match = \<lparr> points = [] \<rparr>"

section \<open>Evaluation\<close>

text \<open>
  Concrete runs of the normalizer are computed by rewriting with the defining equations
  only.  The code points of the ASCII characters are tabulated once.
\<close>

lemma py_ord_table:
  "py_ord (CHR 0x09) = 9" "py_ord (CHR 0x0A) = 10" "py_ord (CHR 0x0B) = 11"
  "py_ord (CHR 0x0C) = 12" "py_ord (CHR 0x0D) = 13" "py_ord (CHR 0x1C) = 28"
  "py_ord (CHR 0x1D) = 29" "py_ord (CHR 0x1E) = 30" "py_ord (CHR 0x1F) = 31"
  "py_ord (CHR '' '') = 32" "py_ord (CHR ''!'') = 33" "py_ord (CHR 0x22) = 34"
  "py_ord (CHR ''#'') = 35" "py_ord (CHR ''$'') = 36" "py_ord (CHR ''%'') = 37"
  "py_ord (CHR ''&'') = 38" "py_ord (CHR 0x27) = 39" "py_ord (CHR ''('') = 40"
  "py_ord (CHR '')'') = 41" "py_ord (CHR ''*'') = 42" "py_ord (CHR ''+'') = 43"
  "py_ord (CHR '','') = 44" "py_ord (CHR ''-'') = 45" "py_ord (CHR ''.'') = 46"
  "py_ord (CHR ''/'') = 47" "py_ord (CHR ''0'') = 48" "py_ord (CHR ''1'') = 49"
  "py_ord (CHR ''2'') = 50" "py_ord (CHR ''3'') = 51" "py_ord (CHR ''4'') = 52"
  "py_ord (CHR ''5'') = 53" "py_ord (CHR ''6'') = 54" "py_ord (CHR ''7'') = 55"
  "py_ord (CHR ''8'') = 56" "py_ord (CHR ''9'') = 57" "py_ord (CHR '':'') = 58"
  "py_ord (CHR '';'') = 59" "py_ord (CHR ''<'') = 60" "py_ord (CHR ''='') = 61"
  "py_ord (CHR ''>'') = 62" "py_ord (CHR ''?'') = 63" "py_ord (CHR ''@'') = 64"
  "py_ord (CHR ''A'') = 65" "py_ord (CHR ''B'') = 66" "py_ord (CHR ''C'') = 67"
  "py_ord (CHR ''D'') = 68" "py_ord (CHR ''E'') = 69" "py_ord (CHR ''F'') = 70"
  "py_ord (CHR ''G'') = 71" "py_ord (CHR ''H'') = 72" "py_ord (CHR ''I'') = 73"
  "py_ord (CHR ''J'') = 74" "py_ord (CHR ''K'') = 75" "py_ord (CHR ''L'') = 76"
  "py_ord (CHR ''M'') = 77" "py_ord (CHR ''N'') = 78" "py_ord (CHR ''O'') = 79"
  "py_ord (CHR ''P'') = 80" "py_ord (CHR ''Q'') = 81" "py_ord (CHR ''R'') = 82"
  "py_ord (CHR ''S'') = 83" "py_ord (CHR ''T'') = 84" "py_ord (CHR ''U'') = 85"
  "py_ord (CHR ''V'') = 86" "py_ord (CHR ''W'') = 87" "py_ord (CHR ''X'') = 88"
  "py_ord (CHR ''Y'') = 89" "py_ord (CHR ''Z'') = 90" "py_ord (CHR ''['') = 91"
  "py_ord (CHR 0x5C) = 92" "py_ord (CHR '']'') = 93" "py_ord (CHR ''^'') = 94"
  "py_ord (CHR ''_'') = 95" "py_ord (CHR ''`'') = 96" "py_ord (CHR ''a'') = 97"
  "py_ord (CHR ''b'') = 98" "py_ord (CHR ''c'') = 99" "py_ord (CHR ''d'') = 100"
  "py_ord (CHR ''e'') = 101" "py_ord (CHR ''f'') = 102" "py_ord (CHR ''g'') = 103"
  "py_ord (CHR ''h'') = 104" "py_ord (CHR ''i'') = 105" "py_ord (CHR ''j'') = 106"
  "py_ord (CHR ''k'') = 107" "py_ord (CHR ''l'') = 108" "py_ord (CHR ''m'') = 109"
  "py_ord (CHR ''n'') = 110" "py_ord (CHR ''o'') = 111" "py_ord (CHR ''p'') = 112"
  "py_ord (CHR ''q'') = 113" "py_ord (CHR ''r'') = 114" "py_ord (CHR ''s'') = 115"
  "py_ord (CHR ''t'') = 116" "py_ord (CHR ''u'') = 117" "py_ord (CHR ''v'') = 118"
  "py_ord (CHR ''w'') = 119" "py_ord (CHR ''x'') = 120" "py_ord (CHR ''y'') = 121"
  "py_ord (CHR ''z'') = 122" "py_ord (CHR ''{'') = 123" "py_ord (CHR ''|'') = 124"
  "py_ord (CHR ''}'') = 125" "py_ord (CHR ''~'') = 126"
  by (simp_all add: py_ord_def)

lemma char_of_table:
  "char_of (97::int) = CHR ''a''" "char_of (98::int) = CHR ''b''"
  "char_of (99::int) = CHR ''c''" "char_of (100::int) = CHR ''d''"
  "char_of (101::int) = CHR ''e''" "char_of (102::int) = CHR ''f''"
  "char_of (103::int) = CHR ''g''" "char_of (104::int) = CHR ''h''"
  "char_of (105::int) = CHR ''i''" "char_of (106::int) = CHR ''j''"
  "char_of (107::int) = CHR ''k''" "char_of (108::int) = CHR ''l''"
  "char_of (109::int) = CHR ''m''" "char_of (110::int) = CHR ''n''"
  "char_of (111::int) = CHR ''o''" "char_of (112::int) = CHR ''p''"
  "char_of (113::int) = CHR ''q''" "char_of (114::int) = CHR ''r''"
  "char_of (115::int) = CHR ''s''" "char_of (116::int) = CHR ''t''"
  "char_of (117::int) = CHR ''u''" "char_of (118::int) = CHR ''v''"
  "char_of (119::int) = CHR ''w''" "char_of (120::int) = CHR ''x''"
  "char_of (121::int) = CHR ''y''" "char_of (122::int) = CHR ''z''"
  by (simp_all add: char_of_eq_iff)

lemma length_eval: "length [] = 0" "length (x # xs) = Suc (length xs)"
  by simp_all

lemma nat_eval:
  "Suc m - Suc n = m - n" "m - 0 = (m::nat)" "0 - n = (0::nat)"
  "(0 < Suc n) = True" "(Suc m < Suc n) = (m < n)" "(m < (0::nat)) = False"
  "(Suc m = Suc n) = (m = n)" "(Suc m = 0) = False" "(0 = Suc m) = False"
  by simp_all

lemma dropWhile_eval:
  "dropWhile P [] = []" "dropWhile P (x # xs) = (if P x then dropWhile P xs else x # xs)"
  by simp_all

lemma map_of_eval:
  "map_of [] k = None" "map_of ((a, b) # ps) k = (if a = k then Some b else map_of ps k)"
  by auto

lemmas ev_text =
  py_ord_table char_of_table length_eval nat_eval dropWhile_eval map_of_eval
  is_digit_def is_upper_def is_lower_def is_space_def is_word_def lower_char_def
  py_lower_def py_strip_def
  item_match.simps lower_code_def upper_code_def class_match_def at_boundary_def advance_def
  rep_exact.simps rep_greedy.simps matches.simps re_match_def first_match_def
  re_sub_from.simps re_sub_def const_repl_def group_def
  re_lit.simps re_seqs.simps re_alts.simps re_times_def re_plus_def re_star_def re_opt_def
  list.case option.case mstate.sel mstate.inject list.inject list.distinct
  option.distinct option.inject prod.case fst_conv snd_conv char.inject
  append.simps concat.simps list.map rev.simps take_Suc_Cons take_0 take.simps(1)
  drop_Suc_Cons drop_0 list_ex_Nil_iff list_ex_Cons_iff
  if_True if_False simp_thms
  arith_simps rel_simps numeral_eq_Suc pred_numeral_simps One_nat_def

lemmas ev_patterns =
  c_09_def c_az_def c_AZ_def c_af_def hex_def dig_def octet_def jwt_part_def kv_key_def tok_def
  RE_UUID_def RE_HEX_WORD_def RE_HEX_LONG_def RE_IPv4_def RE_IPv6_def RE_MAC_def RE_TS_ISO_def
  RE_TS_DATE_def RE_TS_TIME_def RE_URL_def RE_EMAIL_def RE_ARN_def RE_JWT_def RE_B64_def
  RE_NUM_def RE_KV_ID_def RE_LONG_ALNUM_def RE_MIXED_TOKEN_def RE_WS_def mask_kv_def
  ISO_8601_UTC_REGEX_def

lemmas ev = ev_text ev_patterns

section \<open>The normalizer\<close>

subsection \<open>The stages of \<^verbatim>\<open>_preprocess\<close>\<close>



section \<open>The fingerprinter\<close>

lemma jaccard_nonneg: "0 \<le> jaccard A B"
  by (simp add: jaccard_def)

lemma jaccard_le_one: "jaccard A B \<le> 1"
proof -
  have "fcard (A |\<inter>| B) \<le> fcard (A |\<union>| B)"
    by (rule fcard_mono) auto
  moreover have "A \<noteq> {||} \<Longrightarrow> 0 < fcard (A |\<union>| B)"
    by (metis fcard_fempty fcard_mono funion_upper1 gr_zeroI le_zero_eq fcard_0_eq)
  ultimately show ?thesis
    by (simp add: jaccard_def divide_le_eq_1)
qed

lemma jaccard_self: "jaccard A A = 1"
  by (cases "A = {||}") (simp_all add: jaccard_def fcard_fempty)

subsection \<open>Construction-time validation\<close>

text \<open>
  C6.  Constructing the fingerprinter raises exactly when the parameters are invalid:
  \<open>shingle_size \<le> 0\<close>, \<open>num_hashes \<le> 0\<close>, \<open>bands \<le> 0\<close>, or \<open>bands\<close> not dividing
  \<open>num_hashes\<close>; otherwise an embedder is returned.  The exception the source raises is
  Python's \<^verbatim>\<open>ValueError\<close>, which is what the specification calls a configuration error.
\<close>

theorem init_fails_iff_invalid:
  "((\<exists>msg. LSHMinHashEmbedder_init blake2b ss nh b sd nz lc cw st = Inl (ValueError msg))
      = (ss \<le> 0 \<or> nh \<le> 0 \<or> b \<le> 0 \<or> \<not> b dvd nh))
   \<and> ((\<exists>e. LSHMinHashEmbedder_init blake2b ss nh b sd nz lc cw st = Inr e)
      = (0 < ss \<and> 0 < nh \<and> 0 < b \<and> b dvd nh))"
proof -
  have dv: "0 < b \<Longrightarrow> (nh mod b \<noteq> 0) = (\<not> b dvd nh)"
    by (simp add: dvd_eq_mod_eq_0)
  show ?thesis
    using dv by (auto simp: LSHMinHashEmbedder_init_def Let_def)
qed

theorem init_fails_iff_invalid_witness:
  "(\<exists>msg. LSHMinHashEmbedder_init (\<lambda>n s. replicate n (CHR 0x00)) 5 100 7 42 True True True 0
       = Inl (ValueError msg))
   \<and> (\<exists>e. LSHMinHashEmbedder_init (\<lambda>n s. replicate n (CHR 0x00)) 5 128 32 42 True True True 0
       = Inr e)"
  using init_fails_iff_invalid [of "\<lambda>n s. replicate n (CHR 0x00)" 5 100 7 42 True True True 0]
    init_fails_iff_invalid [of "\<lambda>n s. replicate n (CHR 0x00)" 5 128 32 42 True True True 0]
  by simp

subsection \<open>Exact Jaccard\<close>

text \<open>
  C7.  Exact Jaccard similarity of two shingle sets is 1 when both are empty, 0 when exactly
  one is empty, and the size of the intersection over the size of the union otherwise; it
  always lies between 0 and 1, and every set has similarity 1 with itself.  (The quotient is
  the real one; Python returns the double nearest to it, which stays within the same bounds
  and is exactly 1.0 for equal sets.)
\<close>

theorem jaccard_spec:
  "jaccard A B =
     (if A = {||} \<and> B = {||} then 1
      else if (A = {||}) \<noteq> (B = {||}) then 0
      else real (fcard (A |\<inter>| B)) / real (fcard (A |\<union>| B)))
   \<and> 0 \<le> jaccard A B \<and> jaccard A B \<le> 1 \<and> jaccard A A = 1"
  using jaccard_nonneg [of A B] jaccard_le_one [of A B] jaccard_self [of A]
  by (auto simp: jaccard_def)

theorem jaccard_spec_witness:
  "jaccard {|1, 2, 3|} {|2, 3, 4|} = 1 / 2 \<and> jaccard {||} {||} = 1 \<and> jaccard {||} {|7|} = 0
   \<and> jaccard {|7|} {|7|} = 1"
proof -
  have ci: "fcard ({|1, 2, 3|} |\<inter>| {|2, 3, 4::int|}) = 2"
    by (simp add: fcard_finsert_if)
  have cu: "fcard ({|1, 2, 3|} |\<union>| {|2, 3, 4::int|}) = 4"
    by (simp add: fcard_finsert_if)
  have ne: "{|1, 2, 3::int|} \<noteq> {||}" "{|2, 3, 4::int|} \<noteq> {||}"
    by auto
  have "jaccard {|1, 2, 3|} {|2, 3, 4|} = 1 / 2"
    using jaccard_spec [of "{|1, 2, 3|}" "{|2, 3, 4|}"] ne unfolding ci cu by simp
  moreover have "jaccard {||} {||} = 1"
    using jaccard_spec [of "{||}" "{||}"] by simp
  moreover have "jaccard {||} {|7|} = 0"
    using jaccard_spec [of "{||}" "{|7|}"] by simp
  moreover have "jaccard {|7|} {|7|} = 1"
    using jaccard_spec [of "{|7|}" "{|7|}"] by simp
  ultimately show ?thesis by simp
qed

subsection \<open>MinHash signature\<close>


















section \<open>The normalizer: whitespace, order and idempotence\<close>

subsection \<open>Whitespace collapsing\<close>




















subsection \<open>Lowercasing\<close>









subsection \<open>Order of the stages, and idempotence\<close>













section \<open>The filter compiler\<close>

lemma parse_range_value_bad:
  "\<not> range_value_ok v \<Longrightarrow>
     parse_range_value v = Inl (ValueError [Lit ''Unsupported range value format: '', Repr v])"
  by (auto simp: parse_range_value_def range_value_ok_def split: pyval.splits list.splits)

lemma parse_range_value_ok: "range_value_ok v \<Longrightarrow> \<exists>r. parse_range_value v = Inr r"
  by (auto simp: parse_range_value_def range_value_ok_def length_Suc_conv numeral_2_eq_2
        split: pyval.splits list.splits prod.splits)

lemma build_clauses_all:
  "build_clauses f cs = Inr conds \<Longrightarrow> map (compile_clause f) cs = map Inr conds"
proof (induction cs arbitrary: conds)
  case Nil
  then show ?case by simp
next
  case (Cons c cs)
  then show ?case
    by (auto simp: compile_clause_def split: pyval.splits sum.splits if_splits)
qed

lemma build_clauses_first_error:
  "compile_clause f c = Inl err \<Longrightarrow> build_clauses f (c # cs) = Inl err"
  by (auto simp: compile_clause_def split: pyval.splits sum.splits if_splits)

lemma build_clauses_later_error:
  "compile_clause f c = Inr cond \<Longrightarrow> build_clauses f cs = Inl err \<Longrightarrow>
     build_clauses f (c # cs) = Inl err"
  by (auto simp: compile_clause_def split: pyval.splits sum.splits if_splits)

lemma build_clauses_error_iff:
  "(\<exists>err. build_clauses f cs = Inl err) = (\<exists>c\<in>set cs. \<exists>err. compile_clause f c = Inl err)"
proof (induction cs)
  case Nil
  then show ?case by simp
next
  case (Cons c cs)
  show ?case
  proof (cases "compile_clause f c")
    case (Inl err)
    then show ?thesis
      using build_clauses_first_error [OF Inl] by auto
  next
    case (Inr cond)
    show ?thesis
    proof (cases "build_clauses f cs")
      case (Inl err)
      then show ?thesis
        using build_clauses_later_error [OF Inr Inl] Cons.IH by auto
    next
      case r: (Inr conds)
      have "build_clauses f (c # cs) = Inr (cond # conds)"
        using Inr r by (auto simp: compile_clause_def split: pyval.splits sum.splits if_splits)
      then show ?thesis
        using Inr r Cons.IH by auto
    qed
  qed
qed

lemma logical_bad_clauses:
  assumes "dict_get expr ''logic'' PNone = PStr l" "l \<noteq> []" "clauses_malformed expr"
  shows "build_filter_from_expr f expr =
     Inl (ValueError [Lit (''Logical expr must have non-empty list '' @ sq @ ''clauses'' @ sq @ '': ''),
                      Fmt (PDict expr)])"
  using assms
  by (auto simp: build_filter_from_expr.simps clauses_malformed_def dict_get_def Let_def
        split: option.splits pyval.splits)

lemma logical_compiles_all:
  assumes "dict_get expr ''logic'' PNone = PStr l" "l \<noteq> []"
    and "build_filter_from_expr f expr = Inr flt"
  shows "\<exists>cs conds. dict_get expr ''clauses'' (PList []) = PList cs \<and> cs \<noteq> []
           \<and> map (compile_clause f) cs = map Inr conds"
proof -
  obtain cs where cs: "dict_get expr ''clauses'' (PList []) = PList cs" "cs \<noteq> []"
    using assms
    by (auto simp: build_filter_from_expr.simps Let_def split: pyval.splits if_splits)
  then obtain conds where "build_clauses f cs = Inr conds"
    using assms
    by (auto simp: build_filter_from_expr.simps Let_def split: pyval.splits if_splits sum.splits)
  then show ?thesis
    using cs build_clauses_all by blast
qed

lemma atomic_missing_key:
  assumes "get_lowered spec ''dtype'' ''string'' = Inr dtype" "get_lowered spec ''op'' ''equals'' = Inr op"
    and "\<not> truthy (dict_get spec ''key'' PNone)" "op \<noteq> ''has_id''"
  shows "field_condition_from_atomic f spec =
     Inl (ValueError [Lit (''Missing '' @ sq @ ''key'' @ sq @ '' in spec: ''), Fmt (PDict spec)])"
  using assms by (simp add: field_condition_from_atomic_def Let_def)

lemma atomic_has_id:
  assumes "get_lowered spec ''dtype'' ''string'' = Inr dtype" "get_lowered spec ''op'' ''equals'' = Inr ''has_id''"
  shows "field_condition_from_atomic f spec = Inr (HasIdCondition (as_list (dict_get spec ''value'' PNone)))"
  using assms by (simp add: field_condition_from_atomic_def Let_def)

lemma atomic_unsupported_op:
  assumes "get_lowered spec ''dtype'' ''string'' = Inr dtype" "get_lowered spec ''op'' ''equals'' = Inr op"
    and "truthy (dict_get spec ''key'' PNone)" "op \<notin> set supported_ops"
  shows "field_condition_from_atomic f spec =
     Inl (ValueError [Lit ''Unsupported op='', Repr (PStr op), Lit '' for spec: '', Fmt (PDict spec)])"
  using assms by (simp add: field_condition_from_atomic_def Let_def supported_ops_def)

lemma atomic_bad_range:
  assumes d: "get_lowered spec ''dtype'' ''string'' = Inr dtype"
    and o: "get_lowered spec ''op'' ''equals'' = Inr op"
    and k: "truthy (dict_get spec ''key'' PNone)" and b: "op = ''between'' \<or> op = ''range''"
    and r: "\<not> range_value_ok (dict_get spec ''value'' PNone)"
  shows "field_condition_from_atomic f spec =
     Inl (ValueError [Lit ''Unsupported range value format: '', Repr (dict_get spec ''value'' PNone)])"
proof -
  note p = parse_range_value_bad [OF r]
  show ?thesis
    using b
  proof
    assume "op = ''between''"
    then show ?thesis
      using d o k by (simp add: field_condition_from_atomic_def Let_def p)
  next
    assume "op = ''range''"
    then show ?thesis
      using d o k by (simp add: field_condition_from_atomic_def Let_def p)
  qed
qed

lemma atomic_well_formed:
  assumes d: "get_lowered spec ''dtype'' ''string'' = Inr dtype"
    and o: "get_lowered spec ''op'' ''equals'' = Inr op"
    and k: "truthy (dict_get spec ''key'' PNone)" and s: "op \<in> set supported_ops"
    and r: "op = ''between'' \<or> op = ''range'' \<longrightarrow> range_value_ok (dict_get spec ''value'' PNone)"
  shows "\<exists>cond. field_condition_from_atomic f spec = Inr cond"
proof -
  have cases: "op = ''has_id'' \<or> op = ''equals'' \<or> op = ''eq'' \<or> op = ''in'' \<or> op = ''not_in''
      \<or> op = ''contains'' \<or> op = ''text'' \<or> op = ''phrase'' \<or> op = ''prefix'' \<or> op = ''exists''
      \<or> op = ''has_field'' \<or> op = ''is_null'' \<or> op = ''is_empty'' \<or> op = ''gt'' \<or> op = ''gte''
      \<or> op = ''lt'' \<or> op = ''lte'' \<or> op = ''between'' \<or> op = ''range''"
    using s by (simp add: supported_ops_def)
  have rng: "op = ''between'' \<or> op = ''range'' \<Longrightarrow>
      \<exists>rv. parse_range_value (dict_get spec ''value'' PNone) = Inr rv"
    using r parse_range_value_ok by blast
  show ?thesis
    using cases
  proof (elim disjE)
    assume b: "op = ''between''"
    then obtain rv where "parse_range_value (dict_get spec ''value'' PNone) = Inr rv"
      using rng by blast
    then show ?thesis
      using b d o k by (simp add: field_condition_from_atomic_def Let_def)
  next
    assume b: "op = ''range''"
    then obtain rv where "parse_range_value (dict_get spec ''value'' PNone) = Inr rv"
      using rng by blast
    then show ?thesis
      using b d o k by (simp add: field_condition_from_atomic_def Let_def)
  qed (use d o k in \<open>simp_all add: field_condition_from_atomic_def Let_def\<close>)
qed

text \<open>
  C8 (amended).  For an atomic spec whose \<open>dtype\<close> and \<open>op\<close> are strings or absent: a missing
  \<open>key\<close> raises a \<^verbatim>\<open>ValueError\<close> that names the spec unless the operator is \<open>has_id\<close>, which
  compiles without a key; an unsupported operator raises one that names the operator and
  the spec; a \<open>between\<close>/\<open>range\<close> value of a wrong shape raises one that names the offending
  value (not the spec); any other atomic spec compiles.  A logical spec whose \<open>clauses\<close> is
  missing, not a list or empty raises a \<^verbatim>\<open>ValueError\<close> that names the spec, and a logical
  spec compiles only when every clause compiles: the loop over the clauses raises exactly
  when some clause does, so no clause is skipped.
\<close>

theorem filter_compile_malformed:
  "(\<forall>dtype op.
      get_lowered spec ''dtype'' ''string'' = Inr dtype \<and> get_lowered spec ''op'' ''equals'' = Inr op \<longrightarrow>
        (\<not> truthy (dict_get spec ''key'' PNone) \<and> op \<noteq> ''has_id'' \<longrightarrow>
           field_condition_from_atomic f spec =
             Inl (ValueError [Lit (''Missing '' @ sq @ ''key'' @ sq @ '' in spec: ''), Fmt (PDict spec)]))
      \<and> (op = ''has_id'' \<longrightarrow>
           field_condition_from_atomic f spec =
             Inr (HasIdCondition (as_list (dict_get spec ''value'' PNone))))
      \<and> (truthy (dict_get spec ''key'' PNone) \<and> op \<notin> set supported_ops \<longrightarrow>
           field_condition_from_atomic f spec =
             Inl (ValueError [Lit ''Unsupported op='', Repr (PStr op), Lit '' for spec: '',
                              Fmt (PDict spec)]))
      \<and> (truthy (dict_get spec ''key'' PNone) \<and> (op = ''between'' \<or> op = ''range'')
           \<and> \<not> range_value_ok (dict_get spec ''value'' PNone) \<longrightarrow>
           field_condition_from_atomic f spec =
             Inl (ValueError [Lit ''Unsupported range value format: '',
                              Repr (dict_get spec ''value'' PNone)]))
      \<and> (truthy (dict_get spec ''key'' PNone) \<and> op \<in> set supported_ops
           \<and> (op = ''between'' \<or> op = ''range'' \<longrightarrow> range_value_ok (dict_get spec ''value'' PNone)) \<longrightarrow>
           (\<exists>cond. field_condition_from_atomic f spec = Inr cond)))
   \<and> (\<forall>l. dict_get expr ''logic'' PNone = PStr l \<and> l \<noteq> [] \<longrightarrow>
        (clauses_malformed expr \<longrightarrow>
           build_filter_from_expr f expr =
             Inl (ValueError [Lit (''Logical expr must have non-empty list '' @ sq @ ''clauses'' @ sq
                                   @ '': ''), Fmt (PDict expr)]))
      \<and> (\<forall>flt. build_filter_from_expr f expr = Inr flt \<longrightarrow>
           (\<exists>cs conds. dict_get expr ''clauses'' (PList []) = PList cs \<and> cs \<noteq> []
              \<and> map (compile_clause f) cs = map Inr conds)))
   \<and> ((\<exists>err. build_clauses f cs = Inl err) = (\<exists>c\<in>set cs. \<exists>err. compile_clause f c = Inl err))"
proof -
  have atomic: "\<forall>dtype op.
      get_lowered spec ''dtype'' ''string'' = Inr dtype \<and> get_lowered spec ''op'' ''equals'' = Inr op \<longrightarrow>
        (\<not> truthy (dict_get spec ''key'' PNone) \<and> op \<noteq> ''has_id'' \<longrightarrow>
           field_condition_from_atomic f spec =
             Inl (ValueError [Lit (''Missing '' @ sq @ ''key'' @ sq @ '' in spec: ''), Fmt (PDict spec)]))
      \<and> (op = ''has_id'' \<longrightarrow>
           field_condition_from_atomic f spec =
             Inr (HasIdCondition (as_list (dict_get spec ''value'' PNone))))
      \<and> (truthy (dict_get spec ''key'' PNone) \<and> op \<notin> set supported_ops \<longrightarrow>
           field_condition_from_atomic f spec =
             Inl (ValueError [Lit ''Unsupported op='', Repr (PStr op), Lit '' for spec: '',
                              Fmt (PDict spec)]))
      \<and> (truthy (dict_get spec ''key'' PNone) \<and> (op = ''between'' \<or> op = ''range'')
           \<and> \<not> range_value_ok (dict_get spec ''value'' PNone) \<longrightarrow>
           field_condition_from_atomic f spec =
             Inl (ValueError [Lit ''Unsupported range value format: '',
                              Repr (dict_get spec ''value'' PNone)]))
      \<and> (truthy (dict_get spec ''key'' PNone) \<and> op \<in> set supported_ops
           \<and> (op = ''between'' \<or> op = ''range'' \<longrightarrow> range_value_ok (dict_get spec ''value'' PNone)) \<longrightarrow>
           (\<exists>cond. field_condition_from_atomic f spec = Inr cond))"
  proof (intro allI impI, elim conjE)
    fix dtype op
    assume d: "get_lowered spec ''dtype'' ''string'' = Inr dtype"
      and o: "get_lowered spec ''op'' ''equals'' = Inr op"
    show "(\<not> truthy (dict_get spec ''key'' PNone) \<and> op \<noteq> ''has_id'' \<longrightarrow>
           field_condition_from_atomic f spec =
             Inl (ValueError [Lit (''Missing '' @ sq @ ''key'' @ sq @ '' in spec: ''), Fmt (PDict spec)]))
      \<and> (op = ''has_id'' \<longrightarrow>
           field_condition_from_atomic f spec =
             Inr (HasIdCondition (as_list (dict_get spec ''value'' PNone))))
      \<and> (truthy (dict_get spec ''key'' PNone) \<and> op \<notin> set supported_ops \<longrightarrow>
           field_condition_from_atomic f spec =
             Inl (ValueError [Lit ''Unsupported op='', Repr (PStr op), Lit '' for spec: '',
                              Fmt (PDict spec)]))
      \<and> (truthy (dict_get spec ''key'' PNone) \<and> (op = ''between'' \<or> op = ''range'')
           \<and> \<not> range_value_ok (dict_get spec ''value'' PNone) \<longrightarrow>
           field_condition_from_atomic f spec =
             Inl (ValueError [Lit ''Unsupported range value format: '',
                              Repr (dict_get spec ''value'' PNone)]))
      \<and> (truthy (dict_get spec ''key'' PNone) \<and> op \<in> set supported_ops
           \<and> (op = ''between'' \<or> op = ''range'' \<longrightarrow> range_value_ok (dict_get spec ''value'' PNone)) \<longrightarrow>
           (\<exists>cond. field_condition_from_atomic f spec = Inr cond))"
    proof (intro conjI impI; (elim conjE)?)
      assume "\<not> truthy (dict_get spec ''key'' PNone)" "op \<noteq> ''has_id''"
      then show "field_condition_from_atomic f spec =
          Inl (ValueError [Lit (''Missing '' @ sq @ ''key'' @ sq @ '' in spec: ''), Fmt (PDict spec)])"
        by (rule atomic_missing_key [OF d o])
    next
      assume h: "op = ''has_id''"
      show "field_condition_from_atomic f spec =
          Inr (HasIdCondition (as_list (dict_get spec ''value'' PNone)))"
        by (rule atomic_has_id [OF d o [unfolded h]])
    next
      assume "truthy (dict_get spec ''key'' PNone)" "op \<notin> set supported_ops"
      then show "field_condition_from_atomic f spec =
          Inl (ValueError [Lit ''Unsupported op='', Repr (PStr op), Lit '' for spec: '', Fmt (PDict spec)])"
        by (rule atomic_unsupported_op [OF d o])
    next
      assume "truthy (dict_get spec ''key'' PNone)" "op = ''between'' \<or> op = ''range''"
        "\<not> range_value_ok (dict_get spec ''value'' PNone)"
      then show "field_condition_from_atomic f spec =
          Inl (ValueError [Lit ''Unsupported range value format: '', Repr (dict_get spec ''value'' PNone)])"
        by (rule atomic_bad_range [OF d o])
    next
      assume "truthy (dict_get spec ''key'' PNone)" "op \<in> set supported_ops"
        "op = ''between'' \<or> op = ''range'' \<longrightarrow> range_value_ok (dict_get spec ''value'' PNone)"
      then show "\<exists>cond. field_condition_from_atomic f spec = Inr cond"
        by (rule atomic_well_formed [OF d o])
    qed
  qed
  have logical: "\<forall>l. dict_get expr ''logic'' PNone = PStr l \<and> l \<noteq> [] \<longrightarrow>
        (clauses_malformed expr \<longrightarrow>
           build_filter_from_expr f expr =
             Inl (ValueError [Lit (''Logical expr must have non-empty list '' @ sq @ ''clauses'' @ sq
                                   @ '': ''), Fmt (PDict expr)]))
      \<and> (\<forall>flt. build_filter_from_expr f expr = Inr flt \<longrightarrow>
           (\<exists>cs conds. dict_get expr ''clauses'' (PList []) = PList cs \<and> cs \<noteq> []
              \<and> map (compile_clause f) cs = map Inr conds))"
  proof (intro allI impI, elim conjE)
    fix l
    assume l: "dict_get expr ''logic'' PNone = PStr l" "l \<noteq> []"
    show "(clauses_malformed expr \<longrightarrow>
           build_filter_from_expr f expr =
             Inl (ValueError [Lit (''Logical expr must have non-empty list '' @ sq @ ''clauses'' @ sq
                                   @ '': ''), Fmt (PDict expr)]))
      \<and> (\<forall>flt. build_filter_from_expr f expr = Inr flt \<longrightarrow>
           (\<exists>cs conds. dict_get expr ''clauses'' (PList []) = PList cs \<and> cs \<noteq> []
              \<and> map (compile_clause f) cs = map Inr conds))"
    proof (intro conjI impI allI)
      assume "clauses_malformed expr"
      then show "build_filter_from_expr f expr =
          Inl (ValueError [Lit (''Logical expr must have non-empty list '' @ sq @ ''clauses'' @ sq
                                @ '': ''), Fmt (PDict expr)])"
        by (rule logical_bad_clauses [OF l])
    next
      fix flt
      assume "build_filter_from_expr f expr = Inr flt"
      then show "\<exists>cs conds. dict_get expr ''clauses'' (PList []) = PList cs \<and> cs \<noteq> []
          \<and> map (compile_clause f) cs = map Inr conds"
        by (rule logical_compiles_all [OF l])
    qed
  qed
  show ?thesis
    by (intro conjI atomic logical build_clauses_error_iff)
qed

lemma lowered_names:
  "py_lower ''string'' = ''string''" "py_lower ''equals'' = ''equals''" "py_lower ''Equals'' = ''equals''"
  "py_lower ''regex'' = ''regex''" "py_lower ''between'' = ''between''" "py_lower ''in'' = ''in''"
  "py_lower ''has_id'' = ''has_id''" "py_lower ''and'' = ''and''" "py_lower ''AND'' = ''and''"
  by (simp_all only: ev)

theorem filter_compile_malformed_witness:
  "field_condition_from_atomic demo_str [(''op'', PStr ''Equals''), (''value'', PStr ''x'')]
     = Inl (ValueError [Lit (''Missing '' @ sq @ ''key'' @ sq @ '' in spec: ''),
                        Fmt (PDict [(''op'', PStr ''Equals''), (''value'', PStr ''x'')])])
   \<and> field_condition_from_atomic demo_str [(''key'', PStr ''k''), (''op'', PStr ''regex'')]
     = Inl (ValueError [Lit ''Unsupported op='', Repr (PStr ''regex''), Lit '' for spec: '',
                        Fmt (PDict [(''key'', PStr ''k''), (''op'', PStr ''regex'')])])
   \<and> field_condition_from_atomic demo_str
       [(''key'', PStr ''ts''), (''op'', PStr ''between''), (''value'', PInt 5)]
     = Inl (ValueError [Lit ''Unsupported range value format: '', Repr (PInt 5)])
   \<and> (\<exists>cond. field_condition_from_atomic demo_str
         [(''key'', PStr ''status''), (''op'', PStr ''in''), (''value'', PList [PStr ''a'', PStr ''b''])]
       = Inr cond)
   \<and> build_filter_from_expr demo_str [(''logic'', PStr ''AND'')]
     = Inl (ValueError [Lit (''Logical expr must have non-empty list '' @ sq @ ''clauses'' @ sq @ '': ''),
                        Fmt (PDict [(''logic'', PStr ''AND'')])])
   \<and> (\<exists>err. build_clauses demo_str
         [PDict [(''key'', PStr ''status''), (''op'', PStr ''in''), (''value'', PList [PStr ''a'', PStr ''b''])],
          PDict [(''key'', PStr ''k''), (''op'', PStr ''regex'')]] = Inl err)"
proof -
  let ?s1 = "[(''op'', PStr ''Equals''), (''value'', PStr ''x'')]"
  let ?s2 = "[(''key'', PStr ''k''), (''op'', PStr ''regex'')]"
  let ?s3 = "[(''key'', PStr ''ts''), (''op'', PStr ''between''), (''value'', PInt 5)]"
  let ?s4 = "[(''key'', PStr ''status''), (''op'', PStr ''in''), (''value'', PList [PStr ''a'', PStr ''b''])]"
  let ?e5 = "[(''logic'', PStr ''AND'')]"
  have g1: "get_lowered ?s1 ''dtype'' ''string'' = Inr ''string'' \<and> get_lowered ?s1 ''op'' ''equals'' = Inr ''equals''"
    by (simp add: get_lowered_def dict_get_def lowered_names)
  have g2: "get_lowered ?s2 ''dtype'' ''string'' = Inr ''string'' \<and> get_lowered ?s2 ''op'' ''equals'' = Inr ''regex''"
    by (simp add: get_lowered_def dict_get_def lowered_names)
  have g3: "get_lowered ?s3 ''dtype'' ''string'' = Inr ''string'' \<and> get_lowered ?s3 ''op'' ''equals'' = Inr ''between''"
    by (simp add: get_lowered_def dict_get_def lowered_names)
  have g4: "get_lowered ?s4 ''dtype'' ''string'' = Inr ''string'' \<and> get_lowered ?s4 ''op'' ''equals'' = Inr ''in''"
    by (simp add: get_lowered_def dict_get_def lowered_names)
  have w1: "field_condition_from_atomic demo_str ?s1
      = Inl (ValueError [Lit (''Missing '' @ sq @ ''key'' @ sq @ '' in spec: ''), Fmt (PDict ?s1)])"
    using filter_compile_malformed [of ?s1 demo_str ?e5 "[]", THEN conjunct1, rule_format, OF g1]
    by (simp add: dict_get_def)
  have w2: "field_condition_from_atomic demo_str ?s2
      = Inl (ValueError [Lit ''Unsupported op='', Repr (PStr ''regex''), Lit '' for spec: '', Fmt (PDict ?s2)])"
    using filter_compile_malformed [of ?s2 demo_str ?e5 "[]", THEN conjunct1, rule_format, OF g2]
    by (simp add: dict_get_def supported_ops_def)
  have w3: "field_condition_from_atomic demo_str ?s3
      = Inl (ValueError [Lit ''Unsupported range value format: '', Repr (PInt 5)])"
    using filter_compile_malformed [of ?s3 demo_str ?e5 "[]", THEN conjunct1, rule_format, OF g3]
    by (simp add: dict_get_def range_value_ok_def)
  have w4: "\<exists>cond. field_condition_from_atomic demo_str ?s4 = Inr cond"
    using filter_compile_malformed [of ?s4 demo_str ?e5 "[]", THEN conjunct1, rule_format, OF g4]
    by (simp add: dict_get_def supported_ops_def)
  have l5: "dict_get ?e5 ''logic'' PNone = PStr ''AND'' \<and> ''AND'' \<noteq> []"
    by (simp add: dict_get_def)
  have w5: "build_filter_from_expr demo_str ?e5
      = Inl (ValueError [Lit (''Logical expr must have non-empty list '' @ sq @ ''clauses'' @ sq @ '': ''),
                         Fmt (PDict ?e5)])"
    using filter_compile_malformed [of ?s1 demo_str ?e5 "[]", THEN conjunct2, THEN conjunct1,
        rule_format, OF l5]
    by (simp add: clauses_malformed_def)
  have c2: "compile_clause demo_str (PDict ?s2)
      = Inl (ValueError [Lit ''Unsupported op='', Repr (PStr ''regex''), Lit '' for spec: '', Fmt (PDict ?s2)])"
    by (simp add: compile_clause_def dict_get_def w2 [simplified])
  have ex: "\<exists>c\<in>set [PDict ?s4, PDict ?s2]. \<exists>err. compile_clause demo_str c = Inl err"
    by (rule bexI [of _ "PDict ?s2"]) (simp_all add: c2)
  have w6: "\<exists>err. build_clauses demo_str [PDict ?s4, PDict ?s2] = Inl err"
    by (rule iffD2 [OF filter_compile_malformed [of ?s1 demo_str ?e5 "[PDict ?s4, PDict ?s2]",
        THEN conjunct2, THEN conjunct2] ex])
  show ?thesis
    by (intro conjI w1 w2 w3 w4 w5 w6)
qed

text \<open>
  C8 as stated fails in two places: an atomic spec without a \<open>key\<close> compiles when its
  operator is \<open>has_id\<close>, and the error for a malformed \<open>between\<close> value names the value, not
  the spec.
\<close>

theorem filter_compile_counterexample:
  "field_condition_from_atomic demo_str [(''op'', PStr ''has_id''), (''value'', PList [PInt 1, PInt 2])]
     = Inr (HasIdCondition [PInt 1, PInt 2])
   \<and> field_condition_from_atomic demo_str
       [(''key'', PStr ''ts''), (''op'', PStr ''between''), (''value'', PInt 5)]
     = Inl (ValueError [Lit ''Unsupported range value format: '', Repr (PInt 5)])"
  by (simp add: field_condition_from_atomic_def get_lowered_def dict_get_def lowered_names as_list_def
        parse_range_value_def Let_def)

section \<open>The ingestion pipeline\<close>

subsection \<open>The classification loop\<close>

lemma VectorStore_hash_annotated:
  "VectorStore_hash h (entry \<lparr> insert_timestamp := ts,
       metadata := dict_set (metadata entry) ''sim_sync'' (PBool False) \<rparr>)
     = spec_canonical_id h entry"
  by (simp add: VectorStore_hash_def spec_canonical_id_def)

lemma annotated_eq:
  "entry \<lparr> insert_timestamp := Some (get_time h k),
           metadata := dict_set (metadata entry) ''sim_sync'' (PBool False) \<rparr>
     = spec_annotated h k entry"
  by (simp add: spec_annotated_def)





lemma demo_time_ok: "re_match ISO_8601_UTC_REGEX False ''2026-01-19T12:34:56.789Z''"
  by (simp only: ev cong: if_weak_cong list.case_cong_weak option.case_cong_weak)





text \<open>
  C2 fails on the code.  When the batched query returns no result list (\<^verbatim>\<open>None\<close> or an
  empty list) for a non-empty batch, \<^verbatim>\<open>insert_logs\<close> pairs every entry with \<^verbatim>\<open>None\<close> and then
  reads \<^verbatim>\<open>result.points\<close>: it raises \<^verbatim>\<open>AttributeError\<close> at the first entry, after annotating
  it and before any write.
\<close>

theorem insert_logs_no_result_list_raises:
  "raised (insert_logs (demo_handler None []) [E1]) = Some AttributeError
   \<and> effects (insert_logs (demo_handler None []) [E1]) = []
   \<and> raised (insert_logs (demo_handler (Some []) []) [E1]) = Some AttributeError
   \<and> effects (insert_logs (demo_handler (Some []) []) [E1]) = []"
  by (simp add: insert_logs_def demo_handler_def Let_def)

lemma insert_logs_no_points_is_canonical:
  "raised (insert_logs (demo_handler (Some [no_match]) []) [E1]) = None"
  by (simp add: insert_logs_def demo_handler_def Let_def no_match_def E1_def demo_time_ok)

subsection \<open>The relink job\<close>

lemma sync_filter:
  "adapter_specs_to_filters f
     [[(''key'', PStr ''sim_sync''), (''dtype'', PStr ''boolean''), (''op'', PStr ''equals''),
       (''value'', PBool False)]] ''and''
   = Inr (OneFilter (Filter (Some [FieldCondition (PStr ''sim_sync'') (Match (MatchValue (PBool False)))])
                       None None None))"
proof -
  have l: "py_lower ''and'' = ''and''" "py_lower ''boolean'' = ''boolean''"
    "py_lower ''equals'' = ''equals''" "py_lower ''string'' = ''string''"
    by (simp_all only: ev)
  show ?thesis
    by (simp add: adapter_specs_to_filters_def map_err_def field_condition_from_atomic_def
          get_lowered_def dict_get_def l Let_def)
qed

lemma sync_loop_two_points:
  "points result = p1 # p2 # ps \<Longrightarrow>
     sync_loop h ((point, result) # remaining) edges =
       sync_loop h remaining (edges @ [(rec_id point, str_of h (sp_id p2), score p2)])"
  by simp

text \<open>
  C9 fails on the code.  For a scanned point whose top-2 query returns exactly one point
  (itself), the guard \<^verbatim>\<open>len(result.points) > 0\<close> holds and \<^verbatim>\<open>result.points[1]\<close> raises
  \<^verbatim>\<open>IndexError\<close>: no edge is returned.
\<close>

theorem sync_similarty_single_point_raises:
  "sync_similarty
     (demo_handler (Some [\<lparr> points = [\<lparr> sp_id = PStr ''h1'', score = 1, sp_payload = [] \<rparr>] \<rparr>])
                   [\<lparr> rec_id = PStr ''h1'', rec_payload = [(''sim_sync'', PBool False)] \<rparr>])
   = Inl IndexError"
  by (simp add: sync_similarty_def sync_filter demo_handler_def Let_def)

end
